theory Spec2Isabelle
  imports Main "HOL-Library.Monad_Syntax"
begin

section \<open>JavaScript values\<close>

text \<open>
  The configuration pipeline of \<^verbatim>\<open>src/utils/config-loader.ts\<close> and
  \<^verbatim>\<open>src/utils/validation.ts\<close> runs on whatever \<^verbatim>\<open>response.json()\<close> returns: the
  TypeScript types are erased at run time. The model therefore works on JavaScript values:
  the JSON values and \<^verbatim>\<open>undefined\<close>. An object is the list of its own properties in
  insertion order, with distinct keys. A call that throws has the value \<open>None\<close>.

  Scope of the value model: numbers are the integers that JavaScript prints in plain decimal;
  strings are Latin-1; property names that collide with the members of
  \<^verbatim>\<open>Object.prototype\<close> (\<^verbatim>\<open>__proto__\<close>, \<^verbatim>\<open>constructor\<close>, \<^verbatim>\<open>toString\<close>, ...) are
  not given their inherited meaning; the position of integer-like keys in the enumeration
  order of an object is not modelled.
\<close>

datatype jsval =
    JUndefined
  | JNull
  | JBool bool
  | JNum int
  | JStr string
  | JArr "jsval list"
  | JObj "(string \<times> jsval) list"

subsection \<open>Characters and strings\<close>

definition is_upper :: "char \<Rightarrow> bool" where
  "is_upper c = (c \<in> set ''ABCDEFGHIJKLMNOPQRSTUVWXYZ'')"

definition is_lower :: "char \<Rightarrow> bool" where
  "is_lower c = (c \<in> set ''abcdefghijklmnopqrstuvwxyz'')"

definition is_digit :: "char \<Rightarrow> bool" where
  "is_digit c = (c \<in> set ''0123456789'')"

definition is_alpha :: "char \<Rightarrow> bool" where
  "is_alpha c = (is_upper c \<or> is_lower c)"

definition is_alnum :: "char \<Rightarrow> bool" where
  "is_alnum c = (is_alpha c \<or> is_digit c)"

definition is_hex_digit :: "char \<Rightarrow> bool" where
  "is_hex_digit c = (c \<in> set ''0123456789abcdefABCDEF'')"

definition to_lower :: "char \<Rightarrow> char" where
  "to_lower c =
     (case map_of (zip ''ABCDEFGHIJKLMNOPQRSTUVWXYZ'' ''abcdefghijklmnopqrstuvwxyz'') c of
        None \<Rightarrow> c
      | Some d \<Rightarrow> d)"

definition toLowerCase :: "string \<Rightarrow> string" where
  "toLowerCase s = map to_lower s"

text \<open>\<^verbatim>\<open>s.startsWith(p)\<close> and the search for a literal substring.\<close>

fun startsWith :: "string \<Rightarrow> string \<Rightarrow> bool" where
  "startsWith s [] = True"
| "startsWith [] (p # ps) = False"
| "startsWith (c # cs) (p # ps) = (c = p \<and> startsWith cs ps)"

fun str_includes :: "string \<Rightarrow> string \<Rightarrow> bool" where
  "str_includes [] p = (p = [])"
| "str_includes (c # cs) p = (startsWith (c # cs) p \<or> str_includes cs p)"

text \<open>A regular expression \<^verbatim>\<open>/lit/i\<close> whose literal has no upper-case letter: an
  unanchored, ASCII case-insensitive search.\<close>

definition test_ci :: "string \<Rightarrow> string \<Rightarrow> bool" where
  "test_ci lit s = str_includes (toLowerCase s) lit"

definition digit_value :: "char \<Rightarrow> int" where
  "digit_value c =
     (case map_of (zip ''0123456789abcdefABCDEF''
                       [0, 1, 2, 3, 4, 5, 6, 7, 8, 9, 10, 11, 12, 13, 14, 15, 10, 11, 12, 13, 14, 15]) c of
        None \<Rightarrow> 0
      | Some d \<Rightarrow> d)"

definition digits_value :: "int \<Rightarrow> string \<Rightarrow> int" where
  "digits_value radix s = foldl (\<lambda>acc c. acc * radix + digit_value c) 0 s"

text \<open>Decimal digits of a number that is not negative. The arithmetic is on \<open>int\<close>.\<close>

function show_digits :: "int \<Rightarrow> string" where
  "show_digits n =
     (if n < 10 then [''0123456789'' ! nat n]
      else show_digits (n div 10) @ [''0123456789'' ! nat (n mod 10)])"
  by pat_completeness auto
termination
  by (relation "measure nat") auto

declare show_digits.simps [simp del]

definition show_nat :: "nat \<Rightarrow> string" where
  "show_nat n = show_digits (int n)"

definition show_int :: "int \<Rightarrow> string" where
  "show_int i = (if i < 0 then CHR ''-'' # show_digits (- i) else show_digits i)"

fun split_on :: "char \<Rightarrow> string \<Rightarrow> string list" where
  "split_on d [] = [[]]"
| "split_on d (c # cs) =
     (if c = d then [] # split_on d cs
      else (case split_on d cs of [] \<Rightarrow> [[c]] | p # ps \<Rightarrow> (c # p) # ps))"

fun join :: "string \<Rightarrow> string list \<Rightarrow> string" where
  "join sep [] = []"
| "join sep [x] = x"
| "join sep (x # y # ys) = x @ sep @ join sep (y # ys)"

subsection \<open>The operations of the language that the pipeline uses\<close>

text \<open>Truthiness: \<^verbatim>\<open>undefined\<close>, \<^verbatim>\<open>null\<close>, \<^verbatim>\<open>false\<close>, \<^verbatim>\<open>0\<close> and \<^verbatim>\<open>""\<close> are falsy.\<close>

fun truthy :: "jsval \<Rightarrow> bool" where
  "truthy JUndefined = False"
| "truthy JNull = False"
| "truthy (JBool b) = b"
| "truthy (JNum n) = (n \<noteq> 0)"
| "truthy (JStr s) = (s \<noteq> [])"
| "truthy (JArr xs) = True"
| "truthy (JObj kvs) = True"

text \<open>\<^verbatim>\<open>String(v)\<close>: an array is joined with commas, \<^verbatim>\<open>null\<close> and \<^verbatim>\<open>undefined\<close>
  elements printing as empty.\<close>

fun ToString :: "jsval \<Rightarrow> string" where
  "ToString JUndefined = ''undefined''"
| "ToString JNull = ''null''"
| "ToString (JBool b) = (if b then ''true'' else ''false'')"
| "ToString (JNum n) = show_int n"
| "ToString (JStr s) = s"
| "ToString (JArr xs) =
     join '','' (map (\<lambda>x. if x = JUndefined \<or> x = JNull then [] else ToString x) xs)"
| "ToString (JObj kvs) = ''[object Object]''"

text \<open>The own properties that \<^verbatim>\<open>{...v}\<close>, \<^verbatim>\<open>for (key in v)\<close> and
  \<^verbatim>\<open>Object.entries(v)\<close> enumerate: the properties of an object, the indices of an array
  or of a string, nothing for the other primitives.\<close>

definition indexed :: "'a list \<Rightarrow> (string \<times> 'a) list" where
  "indexed xs = zip (map show_nat [0 ..< length xs]) xs"

fun own_entries :: "jsval \<Rightarrow> (string \<times> jsval) list" where
  "own_entries (JObj kvs) = kvs"
| "own_entries (JArr xs) = indexed xs"
| "own_entries (JStr s) = indexed (map (\<lambda>c. JStr [c]) s)"
| "own_entries v = []"

text \<open>\<^verbatim>\<open>v[key]\<close>: a TypeError on \<^verbatim>\<open>null\<close> and \<^verbatim>\<open>undefined\<close>, \<^verbatim>\<open>undefined\<close> for a
  property that is not there. Arrays and strings have their \<^verbatim>\<open>length\<close>.\<close>

definition lookup :: "(string \<times> jsval) list \<Rightarrow> string \<Rightarrow> jsval" where
  "lookup kvs key = (case map_of kvs key of None \<Rightarrow> JUndefined | Some v \<Rightarrow> v)"

fun get :: "jsval \<Rightarrow> string \<Rightarrow> jsval option" where
  "get JUndefined key = None"
| "get JNull key = None"
| "get (JObj kvs) key = Some (lookup kvs key)"
| "get (JArr xs) key =
     Some (if key = ''length'' then JNum (int (length xs)) else lookup (indexed xs) key)"
| "get (JStr s) key =
     Some (if key = ''length'' then JNum (int (length s))
           else lookup (indexed (map (\<lambda>c. JStr [c]) s)) key)"
| "get v key = Some JUndefined"

text \<open>\<^verbatim>\<open>obj[key] = v\<close> on the property list of a fresh object.\<close>

fun set_prop :: "(string \<times> 'a) list \<Rightarrow> string \<Rightarrow> 'a \<Rightarrow> (string \<times> 'a) list" where
  "set_prop [] key v = [(key, v)]"
| "set_prop ((k, w) # kvs) key v =
     (if k = key then (k, v) # kvs else (k, w) # set_prop kvs key v)"

text \<open>\<^verbatim>\<open>v > n\<close> against a number literal. A number compares as it is; the other values
  are converted by \<^verbatim>\<open>ToNumber\<close>, which is modelled on decimal integer literals (every
  other string is taken to be \<^verbatim>\<open>NaN\<close>, for which the comparison is false).\<close>

definition is_ws :: "char \<Rightarrow> bool" where
  "is_ws c = (c \<in> {CHR 0x09, CHR 0x0A, CHR 0x0B, CHR 0x0C, CHR 0x0D, CHR 0x20, CHR 0xA0})"

definition trim :: "string \<Rightarrow> string" where
  "trim s = rev (dropWhile is_ws (rev (dropWhile is_ws s)))"

definition StringToNumber :: "string \<Rightarrow> int option" where
  "StringToNumber s =
     (let t = trim s in
      if t = [] then Some 0
      else if list_all is_digit t then Some (digits_value 10 t)
      else if hd t = CHR ''-'' \<and> tl t \<noteq> [] \<and> list_all is_digit (tl t)
        then Some (- digits_value 10 (tl t))
      else if hd t = CHR ''+'' \<and> tl t \<noteq> [] \<and> list_all is_digit (tl t)
        then Some (digits_value 10 (tl t))
      else None)"

fun ToNumber :: "jsval \<Rightarrow> int option" where
  "ToNumber JUndefined = None"
| "ToNumber JNull = Some 0"
| "ToNumber (JBool b) = Some (if b then 1 else 0)"
| "ToNumber (JNum n) = Some n"
| "ToNumber v = StringToNumber (ToString v)"

definition js_gt :: "jsval \<Rightarrow> int \<Rightarrow> bool" where
  "js_gt v n = (case ToNumber v of None \<Rightarrow> False | Some m \<Rightarrow> m > n)"

section \<open>The platform's URL parser\<close>

text \<open>
  \<^verbatim>\<open>new URL(input)\<close> is not code of the repository. It is modelled after the URL
  Standard's parser without a base URL, for the two components the validators read:
  \<^verbatim>\<open>protocol\<close> and \<^verbatim>\<open>hostname\<close>. \<open>None\<close> is the TypeError of an unparsable input.
  Scope: hosts are ASCII (the IDNA mapping is lower-casing); an IPv6 literal is kept as it is
  written, in lower case; the host of a \<^verbatim>\<open>file:\<close> URL is not parsed, since both
  callers reject that protocol before they read the host.
\<close>

record URL =
  protocol :: string
  hostname :: string

definition c0_or_space :: "char \<Rightarrow> bool" where
  "c0_or_space c = ((of_char c :: nat) \<le> 32)"

definition strip_input :: "string \<Rightarrow> string" where
  "strip_input s =
     filter (\<lambda>c. c \<notin> {CHR 0x09, CHR 0x0A, CHR 0x0D})
       (rev (dropWhile c0_or_space (rev (dropWhile c0_or_space s))))"

definition special_schemes :: "string list" where
  "special_schemes = [''ftp'', ''file'', ''http'', ''https'', ''ws'', ''wss'']"

definition scheme_char :: "char \<Rightarrow> bool" where
  "scheme_char c = (is_alnum c \<or> c \<in> set ''+-.'')"

definition parse_ipv4_number :: "string \<Rightarrow> int option" where
  "parse_ipv4_number s =
     (if s = [] then None
      else if 2 \<le> length s \<and> (take 2 s = ''0x'' \<or> take 2 s = ''0X'') then
        (if list_all is_hex_digit (drop 2 s) then Some (digits_value 16 (drop 2 s)) else None)
      else if 2 \<le> length s \<and> hd s = CHR ''0'' then
        (if list_all (\<lambda>c. c \<in> set ''01234567'') (tl s) then Some (digits_value 8 (tl s))
         else None)
      else if list_all is_digit s then Some (digits_value 10 s)
      else None)"

definition ends_in_number :: "string \<Rightarrow> bool" where
  "ends_in_number s =
     (let parts = split_on CHR ''.'' s in
      if last parts = [] \<and> length parts = 1 then False
      else
        (let l = last (if last parts = [] then butlast parts else parts) in
         (l \<noteq> [] \<and> list_all is_digit l) \<or> parse_ipv4_number l \<noteq> None))"

definition serialize_ipv4 :: "int \<Rightarrow> string" where
  "serialize_ipv4 n =
     join ''.'' (map show_int
       [n div 16777216 mod 256, n div 65536 mod 256, n div 256 mod 256, n mod 256])"

definition parse_ipv4 :: "string \<Rightarrow> string option" where
  "parse_ipv4 s =
     (let parts0 = split_on CHR ''.'' s;
          parts = (if last parts0 = [] \<and> 1 < length parts0 then butlast parts0 else parts0)
      in if 4 < length parts then None
         else
           (case those (map parse_ipv4_number parts) of
              None \<Rightarrow> None
            | Some numbers \<Rightarrow>
                if list_ex (\<lambda>n. 255 < n) (butlast numbers) then None
                else if 256 ^ (5 - length numbers) \<le> last numbers then None
                else Some (serialize_ipv4
                  (last numbers +
                   sum_list (map (\<lambda>(i, n). n * 256 ^ (3 - i))
                     (zip [0 ..< length numbers - 1] (butlast numbers)))))))"

definition forbidden_host_char :: "char \<Rightarrow> bool" where
  "forbidden_host_char c =
     (c \<in> {CHR 0x00, CHR 0x09, CHR 0x0A, CHR 0x0D, CHR 0x20, CHR 0x5C} \<or> c \<in> set ''#/:<>?@[]^|'')"

definition forbidden_domain_char :: "char \<Rightarrow> bool" where
  "forbidden_domain_char c =
     (forbidden_host_char c \<or> (of_char c :: nat) < 32 \<or> c = CHR ''%'' \<or> c = CHR 0x7F)"

fun percent_decode :: "string \<Rightarrow> string" where
  "percent_decode (c # h1 # h2 # cs) =
     (if c = CHR ''%'' \<and> is_hex_digit h1 \<and> is_hex_digit h2
      then char_of (digit_value h1 * 16 + digit_value h2) # percent_decode cs
      else c # percent_decode (h1 # h2 # cs))"
| "percent_decode cs = cs"

definition parse_host :: "bool \<Rightarrow> string \<Rightarrow> string option" where
  "parse_host isOpaque input =
     (if input \<noteq> [] \<and> hd input = CHR ''['' then
        (let inner = butlast (tl input) in
         if last input \<noteq> CHR '']'' \<or> inner = []
            \<or> \<not> list_all (\<lambda>c. is_hex_digit c \<or> c = CHR '':'' \<or> c = CHR ''.'') inner
         then None
         else Some (toLowerCase input))
      else if isOpaque then
        (if list_ex forbidden_host_char input then None else Some input)
      else
        (let domain = toLowerCase (percent_decode input) in
         if domain = [] \<or> list_ex forbidden_domain_char domain then None
         else if ends_in_number domain then parse_ipv4 domain
         else Some domain))"

fun split_host_port :: "bool \<Rightarrow> string \<Rightarrow> string \<times> string option" where
  "split_host_port insideBrackets [] = ([], None)"
| "split_host_port insideBrackets (c # cs) =
     (if c = CHR '':'' \<and> \<not> insideBrackets then ([], Some cs)
      else
        (case split_host_port
                (if c = CHR ''['' then True else if c = CHR '']'' then False else insideBrackets) cs of
           (h, p) \<Rightarrow> (c # h, p)))"

definition parse_authority :: "bool \<Rightarrow> string \<Rightarrow> string option" where
  "parse_authority special rest =
     (let authority = takeWhile (\<lambda>c. \<not> (c \<in> set ''/?#'' \<or> (special \<and> c = CHR 0x5C))) rest;
          hostport = last (split_on CHR ''@'' authority)
      in case split_host_port False hostport of
           (host, port) \<Rightarrow>
             if CHR ''@'' \<in> set authority \<and> hostport = [] then None
             else if host = [] \<and> (special \<or> port \<noteq> None) then None
             else if (case port of None \<Rightarrow> False
                      | Some p \<Rightarrow> \<not> list_all is_digit p \<or> 65535 < digits_value 10 p) then None
             else parse_host (\<not> special) host)"

definition new_URL :: "string \<Rightarrow> URL option" where
  "new_URL input =
     (let s = strip_input input;
          scheme = toLowerCase (takeWhile scheme_char s);
          rest = dropWhile scheme_char s
      in if s = [] \<or> \<not> is_alpha (hd s) then None
         else if rest = [] \<or> hd rest \<noteq> CHR '':'' then None
         else if scheme = ''file'' then Some \<lparr>protocol = ''file:'', hostname = []\<rparr>
         else if scheme \<in> set special_schemes then
           map_option (\<lambda>h. \<lparr>protocol = scheme @ '':'', hostname = h\<rparr>)
             (parse_authority True (dropWhile (\<lambda>c. c = CHR ''/'' \<or> c = CHR 0x5C) (tl rest)))
         else if startsWith (tl rest) ''//'' then
           map_option (\<lambda>h. \<lparr>protocol = scheme @ '':'', hostname = h\<rparr>)
             (parse_authority False (drop 2 (tl rest)))
         else Some \<lparr>protocol = scheme @ '':'', hostname = []\<rparr>)"

section \<open>Validators and sanitizer (\<^verbatim>\<open>src/utils/validation.ts\<close>)\<close>

text \<open>
  Each validator takes the value it is handed at run time. \<^verbatim>\<open>new URL(url)\<close> and
  \<^verbatim>\<open>pattern.test(url)\<close> convert their argument with \<^verbatim>\<open>String\<close>; a method call on a
  value that has no such method throws.
\<close>

definition allowedProtocols :: "string list" where
  "allowedProtocols = [''http:'', ''https:'', ''mailto:'', ''tel:'']"

definition dangerousPatterns :: "string list" where
  "dangerousPatterns = [''javascript:'', ''data:'', ''vbscript:'', ''file:'', ''ftp:'']"

definition validateUrl :: "jsval \<Rightarrow> bool" where
  "validateUrl url =
     (case new_URL (ToString url) of
        None \<Rightarrow> False
      | Some urlObj \<Rightarrow>
          if protocol urlObj \<notin> set allowedProtocols then False
          else \<not> list_ex (\<lambda>pattern. test_ci pattern (ToString url)) dangerousPatterns)"

text \<open>\<^verbatim>\<open>/\.(jpg|jpeg|png|gif|webp|svg)(\?.*)?$/i\<close>: a dot and an extension, then the end
  of the string or a question mark followed by anything but a line break.\<close>

definition image_extension_names :: "string list" where
  "image_extension_names = [''jpg'', ''jpeg'', ''png'', ''gif'', ''webp'', ''svg'']"

definition query_to_end :: "string \<Rightarrow> bool" where
  "query_to_end r =
     (r = [] \<or> (hd r = CHR ''?'' \<and> list_all (\<lambda>c. c \<noteq> CHR 0x0A \<and> c \<noteq> CHR 0x0D) (tl r)))"

fun imageExtensions :: "string \<Rightarrow> bool" where
  "imageExtensions [] = False"
| "imageExtensions (c # cs) =
     ((c = CHR ''.'' \<and>
       list_ex (\<lambda>e. startsWith (toLowerCase cs) e \<and> query_to_end (drop (length e) cs))
         image_extension_names)
      \<or> imageExtensions cs)"

definition validateImageUrl :: "jsval \<Rightarrow> bool option" where
  "validateImageUrl url =
     (if \<not> validateUrl url then Some False
      else
        (case url of
           JStr s \<Rightarrow>
             if \<not> startsWith s ''http://'' \<and> \<not> startsWith s ''https://'' then Some False
             else Some (imageExtensions s)
         | _ \<Rightarrow> None))"

definition replace_all :: "char \<Rightarrow> string \<Rightarrow> string \<Rightarrow> string" where
  "replace_all c r s = concat (map (\<lambda>x. if x = c then r else [x]) s)"

definition sanitizeText :: "jsval \<Rightarrow> string option" where
  "sanitizeText text =
     (if \<not> truthy text then Some []
      else
        (case text of
           JStr s \<Rightarrow>
             Some (trim
               (replace_all CHR ''/'' ''&#x2F;''
               (replace_all CHR 0x27 ''&#x27;''
               (replace_all CHR 0x22 ''&quot;''
               (replace_all CHR ''>'' ''&gt;''
               (replace_all CHR ''<'' ''&lt;''
               (replace_all CHR ''&'' ''&amp;'' s)))))))
         | _ \<Rightarrow> None))"

definition validateGoogleAnalyticsId :: "jsval \<Rightarrow> bool" where
  "validateGoogleAnalyticsId ident =
     (let s = ToString ident in
      startsWith s ''G-'' \<and> length s = 12 \<and> list_all (\<lambda>c. is_upper c \<or> is_digit c) (drop 2 s))"

definition validateFacebookPixelId :: "jsval \<Rightarrow> bool" where
  "validateFacebookPixelId ident =
     (let s = ToString ident in list_all is_digit s \<and> 15 \<le> length s \<and> length s \<le> 16)"

text \<open>A pattern \<^verbatim>\<open>/^[class]{lo,hi}$/\<close> is its extra characters beside the ASCII
  alphanumerics and its two bounds.\<close>

definition patterns :: "(string \<times> (string \<times> nat \<times> nat)) list" where
  "patterns =
     [(''twitter'', (''_'', 1, 15)),
      (''instagram'', (''_.'', 1, 30)),
      (''github'', (''-'', 1, 39)),
      (''linkedin'', (''-'', 3, 100)),
      (''tiktok'', (''_.'', 1, 24)),
      (''twitch'', (''_'', 4, 25))]"

definition validateSocialMediaUsername :: "string \<Rightarrow> jsval \<Rightarrow> bool" where
  "validateSocialMediaUsername platform username =
     (if \<not> truthy username then True
      else
        (case map_of patterns platform of
           None \<Rightarrow> True
         | Some (extra, lo, hi) \<Rightarrow>
             (let s = ToString username in
              list_all (\<lambda>c. is_alnum c \<or> c \<in> set extra) s \<and> lo \<le> length s \<and> length s \<le> hi)))"

definition validateHexColor :: "jsval \<Rightarrow> bool" where
  "validateHexColor color =
     (let s = ToString color in
      startsWith s ''#'' \<and> length s = 7 \<and> list_all is_hex_digit (drop 1 s))"

subsection \<open>\<^verbatim>\<open>validateConfig\<close>\<close>

record ConfigError =
  field :: string
  message :: string

record ValidationResult =
  isValid :: bool
  errors :: "ConfigError list"
  warnings :: "ConfigError list"

text \<open>\<^verbatim>\<open>if (cond) list.push(e)\<close>, and the two short-circuit operators whose right operand
  may throw.\<close>

definition push_if :: "bool \<Rightarrow> ConfigError \<Rightarrow> ConfigError list \<Rightarrow> ConfigError list" where
  "push_if cond e list = (if cond then list @ [e] else list)"

definition js_or :: "bool \<Rightarrow> bool option \<Rightarrow> bool option" where
  "js_or a b = (if a then Some True else b)"

definition js_and :: "bool \<Rightarrow> bool option \<Rightarrow> bool option" where
  "js_and a b = (if a then b else Some False)"

text \<open>\<^verbatim>\<open>v.length === 0\<close> and \<^verbatim>\<open>v.length > n\<close>.\<close>

definition length_is_0 :: "jsval \<Rightarrow> bool option" where
  "length_is_0 v = map_option (\<lambda>l. l = JNum 0) (get v ''length'')"

definition length_gt :: "jsval \<Rightarrow> int \<Rightarrow> bool option" where
  "length_gt v n = map_option (\<lambda>l. js_gt l n) (get v ''length'')"

text \<open>The body of \<^verbatim>\<open>config.links.forEach((link, index) => ...)\<close>.\<close>

definition validate_link :: "nat \<Rightarrow> jsval \<Rightarrow> ConfigError list \<Rightarrow> ConfigError list option" where
  "validate_link index link errors0 = do {
     title \<leftarrow> get link ''title'';
     c1 \<leftarrow> js_or (\<not> truthy title) (length_is_0 title);
     let errors1 = push_if c1
       \<lparr>field = ''links['' @ show_nat index @ ''].title'',
        message = ''Link title is required''\<rparr> errors0;
     c2 \<leftarrow> js_and (truthy title) (length_gt title 50);
     let errors2 = push_if c2
       \<lparr>field = ''links['' @ show_nat index @ ''].title'',
        message = ''Link title must be 50 characters or less''\<rparr> errors1;
     url \<leftarrow> get link ''url'';
     let errors3 = push_if (\<not> truthy url \<or> \<not> validateUrl url)
       \<lparr>field = ''links['' @ show_nat index @ ''].url'',
        message = ''Invalid URL format''\<rparr> errors2;
     c4 \<leftarrow> js_and (truthy url) (length_gt url 2048);
     let errors4 = push_if c4
       \<lparr>field = ''links['' @ show_nat index @ ''].url'',
        message = ''URL too long (max 2048 characters)''\<rparr> errors3;
     description \<leftarrow> get link ''description'';
     c5 \<leftarrow> js_and (truthy description) (length_gt description 100);
     Some (push_if c5
       \<lparr>field = ''links['' @ show_nat index @ ''].description'',
        message = ''Description must be 100 characters or less''\<rparr> errors4)
   }"

fun validate_links :: "nat \<Rightarrow> jsval list \<Rightarrow> ConfigError list \<Rightarrow> ConfigError list option" where
  "validate_links index [] errors0 = Some errors0"
| "validate_links index (link # links) errors0 =
     (case validate_link index link errors0 of
        None \<Rightarrow> None
      | Some errors1 \<Rightarrow> validate_links (Suc index) links errors1)"

text \<open>The body of \<^verbatim>\<open>Object.entries(config.socialMedia).forEach(...)\<close>.\<close>

definition validate_social :: "string \<times> jsval \<Rightarrow> ConfigError list \<Rightarrow> ConfigError list" where
  "validate_social entry errors0 =
     (case entry of
        (platform, username) \<Rightarrow>
          push_if (truthy username \<and> \<not> validateSocialMediaUsername platform username)
            \<lparr>field = ''socialMedia.'' @ platform,
             message = ''Invalid '' @ platform @ '' username format''\<rparr> errors0)"

definition validateConfig :: "jsval \<Rightarrow> ValidationResult option" where
  "validateConfig config = do {
     profile \<leftarrow> get config ''profile'';
     name \<leftarrow> get profile ''name'';
     c1 \<leftarrow> js_or (\<not> truthy name) (length_is_0 name);
     let errors1 = push_if c1
       \<lparr>field = ''profile.name'', message = ''Name is required''\<rparr> [];
     c2 \<leftarrow> js_and (truthy name) (length_gt name 50);
     let errors2 = push_if c2
       \<lparr>field = ''profile.name'', message = ''Name must be 50 characters or less''\<rparr> errors1;
     bio \<leftarrow> get profile ''bio'';
     c3 \<leftarrow> js_and (truthy bio) (length_gt bio 160);
     let errors3 = push_if c3
       \<lparr>field = ''profile.bio'', message = ''Bio must be 160 characters or less''\<rparr> errors2;
     avatar \<leftarrow> get profile ''avatar'';
     c4 \<leftarrow> js_and (truthy avatar) (map_option Not (validateImageUrl avatar));
     let errors4 = push_if c4
       \<lparr>field = ''profile.avatar'', message = ''Invalid avatar URL format''\<rparr> errors3;
     location \<leftarrow> get profile ''location'';
     c5 \<leftarrow> js_and (truthy location) (length_gt location 50);
     let errors5 = push_if c5
       \<lparr>field = ''profile.location'',
        message = ''Location must be 50 characters or less''\<rparr> errors4;
     links \<leftarrow> get config ''links'';
     c6 \<leftarrow> length_gt links 20;
     let errors6 = push_if c6
       \<lparr>field = ''links'', message = ''Maximum 20 links allowed''\<rparr> errors5;
     errors7 \<leftarrow> (case links of JArr ls \<Rightarrow> validate_links 0 ls errors6 | _ \<Rightarrow> None);
     socialMedia \<leftarrow> get config ''socialMedia'';
     entries \<leftarrow> (if socialMedia = JUndefined \<or> socialMedia = JNull then None
                else Some (own_entries socialMedia));
     let errors8 = foldl (\<lambda>es entry. validate_social entry es) errors7 entries;
     theme \<leftarrow> get config ''theme'';
     primaryColor \<leftarrow> get theme ''primaryColor'';
     let errors9 = push_if (\<not> validateHexColor primaryColor)
       \<lparr>field = ''theme.primaryColor'', message = ''Invalid hex color format''\<rparr> errors8;
     backgroundImage \<leftarrow> get theme ''backgroundImage'';
     c10 \<leftarrow> js_and (truthy backgroundImage) (map_option Not (validateImageUrl backgroundImage));
     let errors10 = push_if c10
       \<lparr>field = ''theme.backgroundImage'',
        message = ''Invalid background image URL''\<rparr> errors9;
     seo \<leftarrow> get config ''seo'';
     seoTitle \<leftarrow> get seo ''title'';
     w1 \<leftarrow> js_and (truthy seoTitle) (length_gt seoTitle 60);
     let warnings1 = push_if w1
       \<lparr>field = ''seo.title'',
        message = ''Title longer than 60 characters may be truncated in search results''\<rparr> [];
     seoDescription \<leftarrow> get seo ''description'';
     w2 \<leftarrow> js_and (truthy seoDescription) (length_gt seoDescription 160);
     let warnings2 = push_if w2
       \<lparr>field = ''seo.description'',
        message = ''Description longer than 160 characters may be truncated''\<rparr> warnings1;
     favicon \<leftarrow> get seo ''favicon'';
     c11 \<leftarrow> js_and (truthy favicon) (map_option Not (validateImageUrl favicon));
     let errors11 = push_if c11
       \<lparr>field = ''seo.favicon'', message = ''Invalid favicon URL format''\<rparr> errors10;
     analytics \<leftarrow> get config ''analytics'';
     googleAnalyticsId \<leftarrow> get analytics ''googleAnalyticsId'';
     let errors12 = push_if
       (truthy googleAnalyticsId \<and> \<not> validateGoogleAnalyticsId googleAnalyticsId)
       \<lparr>field = ''analytics.googleAnalyticsId'',
        message = ''Invalid Google Analytics ID format (should be G-XXXXXXXXXX)''\<rparr> errors11;
     facebookPixelId \<leftarrow> get analytics ''facebookPixelId'';
     let errors13 = push_if
       (truthy facebookPixelId \<and> \<not> validateFacebookPixelId facebookPixelId)
       \<lparr>field = ''analytics.facebookPixelId'',
        message = ''Invalid Facebook Pixel ID format''\<rparr> errors12;
     Some \<lparr>isValid = (length errors13 = 0), errors = errors13, warnings = warnings2\<rparr>
   }"

subsection \<open>\<^verbatim>\<open>sanitizeConfig\<close>\<close>

text \<open>\<^verbatim>\<open>v ? sanitizeText(v) : undefined\<close>.\<close>

definition sanitize_optional :: "jsval \<Rightarrow> jsval option" where
  "sanitize_optional v =
     (if truthy v then map_option JStr (sanitizeText v) else Some JUndefined)"

text \<open>The body of \<^verbatim>\<open>config.links.map(link => ({...link, title: ..., description: ...}))\<close>.\<close>

definition sanitize_link :: "jsval \<Rightarrow> jsval option" where
  "sanitize_link link = do {
     title \<leftarrow> get link ''title'';
     title' \<leftarrow> sanitizeText title;
     description \<leftarrow> get link ''description'';
     description' \<leftarrow> sanitize_optional description;
     Some (JObj (set_prop (set_prop (own_entries link) ''title'' (JStr title'))
                   ''description'' description'))
   }"

fun sanitize_links :: "jsval list \<Rightarrow> jsval list option" where
  "sanitize_links [] = Some []"
| "sanitize_links (link # links) =
     (case sanitize_link link of
        None \<Rightarrow> None
      | Some link' \<Rightarrow> map_option ((#) link') (sanitize_links links))"

definition sanitizeConfig :: "jsval \<Rightarrow> jsval option" where
  "sanitizeConfig config = do {
     profile \<leftarrow> get config ''profile'';
     name \<leftarrow> get profile ''name'';
     name' \<leftarrow> sanitizeText name;
     bio \<leftarrow> get profile ''bio'';
     bio' \<leftarrow> sanitizeText bio;
     avatar \<leftarrow> get profile ''avatar'';
     location \<leftarrow> get profile ''location'';
     location' \<leftarrow> sanitize_optional location;
     links \<leftarrow> get config ''links'';
     links' \<leftarrow> (case links of JArr ls \<Rightarrow> sanitize_links ls | _ \<Rightarrow> None);
     socialMedia \<leftarrow> get config ''socialMedia'';
     theme \<leftarrow> get config ''theme'';
     layout \<leftarrow> get config ''layout'';
     seo \<leftarrow> get config ''seo'';
     seoTitle \<leftarrow> get seo ''title'';
     seoTitle' \<leftarrow> sanitizeText seoTitle;
     seoDescription \<leftarrow> get seo ''description'';
     seoDescription' \<leftarrow> sanitizeText seoDescription;
     keywords \<leftarrow> get seo ''keywords'';
     keywords' \<leftarrow> sanitizeText keywords;
     favicon \<leftarrow> get seo ''favicon'';
     analytics \<leftarrow> get config ''analytics'';
     advanced \<leftarrow> get config ''advanced'';
     Some (JObj
       [(''profile'', JObj
          [(''name'', JStr name'),
           (''bio'', JStr bio'),
           (''avatar'', avatar),
           (''location'', location')]),
        (''links'', JArr links'),
        (''socialMedia'', socialMedia),
        (''theme'', theme),
        (''layout'', layout),
        (''seo'', JObj
          [(''title'', JStr seoTitle'),
           (''description'', JStr seoDescription'),
           (''keywords'', JStr keywords'),
           (''favicon'', favicon)]),
        (''analytics'', analytics),
        (''advanced'', advanced)])
   }"

subsection \<open>\<^verbatim>\<open>isSafeExternalUrl\<close>\<close>

text \<open>The eight patterns of \<^verbatim>\<open>privateIpPatterns\<close>, in the source's order. The fifth,
  \<^verbatim>\<open>/^172\.(1[6-9]|2[0-9]|3[0-1])\./\<close>, is a prefix of seven characters.\<close>

definition privateIpPatterns :: "(string \<Rightarrow> bool) list" where
  "privateIpPatterns =
     [(\<lambda>h. h = ''localhost''),
      (\<lambda>h. startsWith h ''127.''),
      (\<lambda>h. startsWith h ''192.168.''),
      (\<lambda>h. startsWith h ''10.''),
      (\<lambda>h. startsWith h ''172.'' \<and> 7 \<le> length h \<and> h ! 6 = CHR ''.'' \<and>
            ((h ! 4 = CHR ''1'' \<and> h ! 5 \<in> set ''6789'') \<or>
             (h ! 4 = CHR ''2'' \<and> is_digit (h ! 5)) \<or>
             (h ! 4 = CHR ''3'' \<and> h ! 5 \<in> set ''01''))),
      (\<lambda>h. h = ''::1''),
      (\<lambda>h. startsWith h ''fc00:''),
      (\<lambda>h. startsWith h ''fe80:'')]"

definition isSafeExternalUrl :: "jsval \<Rightarrow> bool" where
  "isSafeExternalUrl url =
     (if \<not> validateUrl url then False
      else
        (case new_URL (ToString url) of
           None \<Rightarrow> False
         | Some urlObj \<Rightarrow>
             \<not> list_ex (\<lambda>pattern. pattern (toLowerCase (hostname urlObj))) privateIpPatterns))"

section \<open>The loader (\<^verbatim>\<open>src/utils/config-loader.ts\<close>)\<close>

definition DEFAULT_CONFIG :: jsval where
  "DEFAULT_CONFIG = JObj
     [(''profile'', JObj
        [(''name'', JStr ''Your Name''),
         (''bio'', JStr ''Welcome to my links! Find all my important stuff here.''),
         (''avatar'', JStr ''https://via.placeholder.com/400x400/6366f1/ffffff?text=You''),
         (''location'', JStr [])]),
      (''links'', JArr
        [JObj
           [(''title'', JStr ''My Website''),
            (''url'', JStr ''https://example.com''),
            (''description'', JStr ''Check out my main website''),
            (''icon'', JStr ''globe''),
            (''enabled'', JBool True),
            (''newTab'', JBool True),
            (''featured'', JBool False)],
         JObj
           [(''title'', JStr ''Contact Me''),
            (''url'', JStr ''mailto:hello@example.com''),
            (''description'', JStr ''Get in touch via email''),
            (''icon'', JStr ''mail''),
            (''enabled'', JBool True),
            (''newTab'', JBool False),
            (''featured'', JBool True)]]),
      (''socialMedia'', JObj
        [(''twitter'', JStr []),
         (''instagram'', JStr []),
         (''github'', JStr []),
         (''linkedin'', JStr []),
         (''youtube'', JStr []),
         (''tiktok'', JStr []),
         (''discord'', JStr []),
         (''twitch'', JStr [])]),
      (''theme'', JObj
        [(''colorScheme'', JStr ''auto''),
         (''primaryColor'', JStr ''#6366f1''),
         (''backgroundStyle'', JStr ''gradient''),
         (''backgroundImage'', JStr []),
         (''fontFamily'', JStr ''inter''),
         (''buttonStyle'', JStr ''rounded''),
         (''buttonAnimation'', JStr ''scale''),
         (''showBorder'', JBool True)]),
      (''layout'', JObj
        [(''maxWidth'', JStr ''md''),
         (''alignment'', JStr ''center''),
         (''spacing'', JStr ''normal''),
         (''showProfileFirst'', JBool True),
         (''showSocialMedia'', JBool True),
         (''socialMediaPosition'', JStr ''bottom'')]),
      (''seo'', JObj
        [(''title'', JStr ''My Links''),
         (''description'', JStr ''Find all my important links in one place''),
         (''keywords'', JStr ''links, profile, bio, social media''),
         (''favicon'', JStr [])]),
      (''analytics'', JObj
        [(''googleAnalyticsId'', JStr []),
         (''facebookPixelId'', JStr []),
         (''trackClicks'', JBool True),
         (''trackSocialClicks'', JBool True)]),
      (''advanced'', JObj
        [(''enablePWA'', JBool False),
         (''enableDarkMode'', JBool True),
         (''enableAnimations'', JBool True),
         (''preloadImages'', JBool True)])]"

text \<open>\<^verbatim>\<open>isObject(item)\<close> is \<^verbatim>\<open>item && typeof item === 'object' && !Array.isArray(item)\<close>,
  read as a condition.\<close>

fun isArray :: "jsval \<Rightarrow> bool" where
  "isArray (JArr xs) = True"
| "isArray v = False"

fun isObject :: "jsval \<Rightarrow> bool" where
  "isObject (JObj kvs) = True"
| "isObject v = False"

text \<open>
  \<^verbatim>\<open>mergeConfig(base, override)\<close>. \<open>mergeConfig_loop\<close> is the \<^verbatim>\<open>for (const key in override)\<close>
  loop: it runs over the properties of the override that are still to be visited and carries
  \<^verbatim>\<open>result\<close>, which starts as \<^verbatim>\<open>{ ...base }\<close>. Reading \<^verbatim>\<open>base[key]\<close> throws when the
  base is \<^verbatim>\<open>null\<close> or \<^verbatim>\<open>undefined\<close>.
\<close>

function mergeConfig :: "jsval \<Rightarrow> jsval \<Rightarrow> jsval option"
  and mergeConfig_loop ::
    "jsval \<Rightarrow> (string \<times> jsval) list \<Rightarrow> (string \<times> jsval) list \<Rightarrow> (string \<times> jsval) list option"
where
  "mergeConfig base override =
     map_option JObj (mergeConfig_loop base (own_entries override) (own_entries base))"
| "mergeConfig_loop base [] result = Some result"
| "mergeConfig_loop base ((key, overrideValue) # rest) result =
     (case get base key of
        None \<Rightarrow> None
      | Some baseValue \<Rightarrow>
          if overrideValue = JUndefined then mergeConfig_loop base rest result
          else if isObject overrideValue \<and> isObject baseValue \<and> \<not> isArray overrideValue then
            (case mergeConfig baseValue overrideValue of
               None \<Rightarrow> None
             | Some merged \<Rightarrow> mergeConfig_loop base rest (set_prop result key merged))
          else mergeConfig_loop base rest (set_prop result key overrideValue))"
  by pat_completeness auto
termination
  by (relation "measure (\<lambda>x. case x of
          Inl (base, override) \<Rightarrow>
            2 * size_list (size_prod (\<lambda>k. 0) size) (own_entries override) + 1
        | Inr (base, entries, result) \<Rightarrow>
            2 * size_list (size_prod (\<lambda>k. 0) size) entries)")
     (auto elim: isObject.elims)

declare mergeConfig.simps [simp del]

text \<open>
  \<^verbatim>\<open>loadUserConfig\<close> catches whatever its body throws and answers \<^verbatim>\<open>{}\<close>: a rejected
  \<^verbatim>\<open>fetch\<close>, a response that is not ok (the status is kept), a body that is not JSON.
  Otherwise it returns the parsed document.
\<close>

datatype fetch_outcome =
    FetchRejects
  | ResponseNotOk nat
  | JsonRejects
  | Document jsval

fun loadUserConfig :: "fetch_outcome \<Rightarrow> jsval" where
  "loadUserConfig (Document doc) = doc"
| "loadUserConfig failure = JObj []"

text \<open>\<open>loadConfig_body\<close> is the \<^verbatim>\<open>try\<close> block of \<^verbatim>\<open>loadConfig\<close>; the \<^verbatim>\<open>catch\<close>
  returns \<^verbatim>\<open>DEFAULT_CONFIG\<close>. The validator and the sanitizer it calls are those of
  \<^verbatim>\<open>validation.ts\<close>, imported as \<^verbatim>\<open>validateConfigSecurity\<close> and
  \<^verbatim>\<open>sanitizeConfigSecurity\<close>; the functions of the same names that \<^verbatim>\<open>config-loader.ts\<close>
  defines itself are not called by it.\<close>

definition loadConfig_body :: "fetch_outcome \<Rightarrow> jsval option" where
  "loadConfig_body outcome = do {
     let userConfig = loadUserConfig outcome;
     mergedConfig \<leftarrow> mergeConfig DEFAULT_CONFIG userConfig;
     validation \<leftarrow> validateConfig mergedConfig;
     if \<not> isValid validation then do {
       sanitized \<leftarrow> sanitizeConfig mergedConfig;
       mergeConfig DEFAULT_CONFIG sanitized
     }
     else sanitizeConfig mergedConfig
   }"

definition loadConfig :: "fetch_outcome \<Rightarrow> jsval" where
  "loadConfig outcome =
     (case loadConfig_body outcome of
        None \<Rightarrow> DEFAULT_CONFIG
      | Some config \<Rightarrow> config)"

section \<open>\<^verbatim>\<open>mergeConfig\<close> on a store\<close>

text \<open>
  Which objects a call shares with its arguments cannot be read off values. For that
  question objects live in a store: an address is a position in the list of allocated
  objects, a variable or a property holds a primitive or an address, and allocating appends.
  \<^verbatim>\<open>{ ...base }\<close> allocates the result and copies into it what the properties of the base
  hold (addresses as they are); \<^verbatim>\<open>result[key] = v\<close> updates the result in place.

  The recursion of \<^verbatim>\<open>mergeConfig\<close> follows the references of its arguments, and on a store
  with a cycle it does not end. The model counts the nested calls that are still allowed:
  \<open>OutOfFuel\<close> is the answer of a call that would need more.
\<close>

datatype hval = VUndefined | VNull | VBool bool | VNum int | VStr string | VRef nat















section \<open>Example documents\<close>

text \<open>An override whose first link has a URL with a forbidden scheme and whose second link
  is well-formed in every field. It also brings an avatar with an image extension, so that
  the bad link is the only thing the schema validator objects to.\<close>

definition bad_link :: jsval where
  "bad_link = JObj
     [(''title'', JStr ''Bad''),
      (''url'', JStr ''javascript:alert(1)''),
      (''description'', JStr []),
      (''icon'', JStr ''link''),
      (''enabled'', JBool True),
      (''newTab'', JBool True),
      (''featured'', JBool False)]"

definition good_link :: jsval where
  "good_link = JObj
     [(''title'', JStr ''Good''),
      (''url'', JStr ''https://good.example/page''),
      (''description'', JStr ''A fine page''),
      (''icon'', JStr ''link''),
      (''enabled'', JBool True),
      (''newTab'', JBool True),
      (''featured'', JBool False)]"

definition override_with_bad_link :: jsval where
  "override_with_bad_link = JObj
     [(''profile'', JObj [(''avatar'', JStr ''https://example.com/me.png'')]),
      (''links'', JArr [bad_link, good_link])]"

section \<open>Properties of the pipeline\<close>

subsection \<open>Auxiliary facts\<close>

lemma loadConfig_empty_document: "loadConfig (Document (JObj [])) = DEFAULT_CONFIG"
  by code_simp

lemma loadConfig_through_loadUserConfig:
  "loadConfig outcome = loadConfig (Document (loadUserConfig outcome))"
  by (simp add: loadConfig_def loadConfig_body_def)

lemma loadUserConfig_failure:
  "\<forall>doc. outcome \<noteq> Document doc \<Longrightarrow> loadUserConfig outcome = JObj []"
  by (cases outcome) simp_all

lemma startsWith_map: "startsWith s p \<Longrightarrow> startsWith (map f s) (map f p)"
  by (induction s p rule: startsWith.induct) simp_all

lemma str_includes_map: "str_includes s p \<Longrightarrow> str_includes (map f s) (map f p)"
proof (induction s)
  case Nil
  then show ?case by simp
next
  case (Cons c cs)
  from Cons.prems have "startsWith (c # cs) p \<or> str_includes cs p" by simp
  then show ?case
  proof
    assume "startsWith (c # cs) p"
    then have "startsWith (map f (c # cs)) (map f p)" by (rule startsWith_map)
    then show ?thesis by simp
  next
    assume "str_includes cs p"
    then have "str_includes (map f cs) (map f p)" by (rule Cons.IH)
    then show ?thesis by simp
  qed
qed

lemma dangerousPatterns_lower:
  "pattern \<in> set dangerousPatterns \<Longrightarrow> toLowerCase pattern = pattern"
  by (auto simp: dangerousPatterns_def toLowerCase_def to_lower_def)

lemma dangerous_substring_found:
  assumes "pattern \<in> set dangerousPatterns" and "str_includes url pattern"
  shows "test_ci pattern url"
proof -
  have "str_includes (map to_lower url) (map to_lower pattern)"
    using assms(2) by (rule str_includes_map)
  then show ?thesis
    using dangerousPatterns_lower [OF assms(1)] by (simp add: test_ci_def toLowerCase_def)
qed

subsection \<open>The static defaults and the loader's guarantee\<close>

text \<open>
  C3. The claim is that \<^verbatim>\<open>validateConfig(DEFAULT_CONFIG)\<close> is valid with no error. On the
  code it is not: the default avatar, a placeholder URL, has no image extension, so
  \<^verbatim>\<open>validateImageUrl\<close> rejects it and the validator reports \<^verbatim>\<open>profile.avatar\<close>.
\<close>

theorem DEFAULT_CONFIG_fails_validateConfig:
  "validateImageUrl (JStr ''https://via.placeholder.com/400x400/6366f1/ffffff?text=You'')
     = Some False
   \<and> validateConfig DEFAULT_CONFIG =
       Some \<lparr>isValid = False,
             errors = [\<lparr>field = ''profile.avatar'', message = ''Invalid avatar URL format''\<rparr>],
             warnings = []\<rparr>"
  by code_simp

text \<open>
  C1. The claim is that whatever the sources hold, validating what \<^verbatim>\<open>loadConfig\<close>
  returns gives \<^verbatim>\<open>isValid = true\<close>. On the code, the empty document \<^verbatim>\<open>{}\<close> is answered
  with a configuration equal to the defaults, which the validator rejects; and the override
  with one bad link is answered with a configuration that the validator rejects for that
  link.
\<close>

theorem loadConfig_result_fails_validateConfig:
  "map_option isValid (validateConfig (loadConfig (Document (JObj [])))) = Some False
   \<and> map_option errors (validateConfig (loadConfig (Document override_with_bad_link))) =
       Some [\<lparr>field = ''links[0].url'', message = ''Invalid URL format''\<rparr>]"
  by code_simp

text \<open>
  C2. The claim is that of one link with a bad URL and one valid link, the loaded
  configuration keeps exactly the valid one. On the code both links are kept: the invalid
  branch of \<^verbatim>\<open>loadConfig\<close> calls the HTML-escaping \<^verbatim>\<open>sanitizeConfig\<close> of
  \<^verbatim>\<open>validation.ts\<close>, which removes nothing, and merges its result onto the defaults.
\<close>

theorem loadConfig_keeps_invalid_link:
  "validateUrl (JStr ''javascript:alert(1)'') = False
   \<and> get (loadConfig (Document override_with_bad_link)) ''links'' =
       Some (JArr
         [JObj
            [(''title'', JStr ''Bad''),
             (''url'', JStr ''javascript:alert(1)''),
             (''description'', JUndefined),
             (''icon'', JStr ''link''),
             (''enabled'', JBool True),
             (''newTab'', JBool True),
             (''featured'', JBool False)],
          good_link])"
  by code_simp

text \<open>
  C4. \<^verbatim>\<open>loadConfig\<close> has no exceptional result: its \<^verbatim>\<open>catch\<close> turns every throw of the
  \<^verbatim>\<open>try\<close> block into the static defaults. When the fetch step itself fails (the request
  is rejected, the response is not ok, the body is not JSON), \<^verbatim>\<open>loadUserConfig\<close> answers
  \<^verbatim>\<open>{}\<close> and the rest of the pipeline arrives at a configuration equal to the defaults.
\<close>

theorem loadConfig_never_throws:
  "(loadConfig_body outcome = None \<longrightarrow> loadConfig outcome = DEFAULT_CONFIG)
   \<and> ((\<forall>doc. outcome \<noteq> Document doc) \<longrightarrow> loadConfig outcome = DEFAULT_CONFIG)"
proof
  show "loadConfig_body outcome = None \<longrightarrow> loadConfig outcome = DEFAULT_CONFIG"
    by (simp add: loadConfig_def)
next
  show "(\<forall>doc. outcome \<noteq> Document doc) \<longrightarrow> loadConfig outcome = DEFAULT_CONFIG"
  proof
    assume "\<forall>doc. outcome \<noteq> Document doc"
    then have "loadUserConfig outcome = JObj []" by (rule loadUserConfig_failure)
    then have "loadConfig outcome = loadConfig (Document (JObj []))"
      using loadConfig_through_loadUserConfig [of outcome] by simp
    then show "loadConfig outcome = DEFAULT_CONFIG"
      by (simp add: loadConfig_empty_document)
  qed
qed

theorem loadConfig_never_throws_witness:
  "loadConfig_body (Document (JObj [(''profile'', JNull)])) = None
   \<and> loadConfig (Document (JObj [(''profile'', JNull)])) = DEFAULT_CONFIG
   \<and> loadConfig (ResponseNotOk 404) = DEFAULT_CONFIG"
proof -
  have thrown: "loadConfig_body (Document (JObj [(''profile'', JNull)])) = None"
    by code_simp
  have not_document: "\<forall>doc. ResponseNotOk 404 \<noteq> Document doc"
    by simp
  show ?thesis
    using thrown not_document
      loadConfig_never_throws [of "Document (JObj [(''profile'', JNull)])"]
      loadConfig_never_throws [of "ResponseNotOk 404"]
    by blast
qed

subsection \<open>The validators\<close>

text \<open>
  C5. The claim is that \<^verbatim>\<open>isSafeExternalUrl\<close> is false for every loopback, private and
  link-local host, in particular for \<^verbatim>\<open>http://169.254.169.254/\<close>. On the code the loopback
  address 127.0.0.1 is refused and the public host accepted, but the link-local address is
  accepted: no pattern of \<^verbatim>\<open>privateIpPatterns\<close> covers 169.254.0.0/16. The IPv6 loopback
  is accepted as well, because the host name of \<^verbatim>\<open>http://[::1]/\<close> keeps its brackets and
  the pattern \<^verbatim>\<open>/^::1$/\<close> expects none.
\<close>

theorem isSafeExternalUrl_accepts_link_local:
  "isSafeExternalUrl (JStr ''http://127.0.0.1/x'') = False
   \<and> isSafeExternalUrl (JStr ''https://example.com'') = True
   \<and> map_option hostname (new_URL ''http://169.254.169.254/'') = Some ''169.254.169.254''
   \<and> isSafeExternalUrl (JStr ''http://169.254.169.254/'') = True
   \<and> map_option hostname (new_URL ''http://[::1]/'') = Some ''[::1]''
   \<and> isSafeExternalUrl (JStr ''http://[::1]/'') = True"
  by code_simp

text \<open>
  C6. The claim is that an absent or empty \<^verbatim>\<open>profile.bio\<close> is an error of the schema
  validator. On the code it is not: the defaults with an empty bio (and an avatar that
  passes) validate with no error, and so does a profile that has no \<^verbatim>\<open>bio\<close> at all,
  while a profile with no \<^verbatim>\<open>name\<close> is reported.
\<close>

theorem validateConfig_accepts_missing_bio:
  "Option.bind
     (mergeConfig DEFAULT_CONFIG
       (JObj [(''profile'', JObj
         [(''bio'', JStr []), (''avatar'', JStr ''https://example.com/me.png'')])]))
     validateConfig
     = Some \<lparr>isValid = True, errors = [], warnings = []\<rparr>
   \<and> validateConfig
       (JObj (set_prop (own_entries DEFAULT_CONFIG) ''profile''
         (JObj [(''name'', JStr ''A''), (''avatar'', JStr ''https://example.com/me.png'')])))
     = Some \<lparr>isValid = True, errors = [], warnings = []\<rparr>
   \<and> validateConfig
       (JObj (set_prop (own_entries DEFAULT_CONFIG) ''profile''
         (JObj [(''bio'', JStr ''b''), (''avatar'', JStr ''https://example.com/me.png'')])))
     = Some \<lparr>isValid = False,
             errors = [\<lparr>field = ''profile.name'', message = ''Name is required''\<rparr>],
             warnings = []\<rparr>"
  by code_simp

text \<open>
  C10. The blocklist of \<^verbatim>\<open>validateUrl\<close> is tested against the whole string: a URL that
  parses with an allowed protocol but contains \<^verbatim>\<open>javascript:\<close>, \<^verbatim>\<open>data:\<close>,
  \<^verbatim>\<open>vbscript:\<close>, \<^verbatim>\<open>file:\<close> or \<^verbatim>\<open>ftp:\<close> anywhere is rejected.
\<close>

theorem validateUrl_blocklist_on_whole_string:
  assumes "new_URL url = Some urlObj"
    and "protocol urlObj \<in> set allowedProtocols"
    and "pattern \<in> set dangerousPatterns"
    and "str_includes url pattern"
  shows "validateUrl (JStr url) = False"
proof -
  have "test_ci pattern url"
    using assms(3,4) by (rule dangerous_substring_found)
  then have "list_ex (\<lambda>pattern. test_ci pattern url) dangerousPatterns"
    using assms(3) by (auto simp: list_ex_iff)
  then show ?thesis
    using assms(1,2) by (simp add: validateUrl_def)
qed

theorem validateUrl_blocklist_on_whole_string_witness:
  "new_URL ''https://example.com/?next=data:1''
     = Some \<lparr>protocol = ''https:'', hostname = ''example.com''\<rparr>
   \<and> validateUrl (JStr ''https://example.com/?next=data:1'') = False"
proof -
  have parsed: "new_URL ''https://example.com/?next=data:1''
      = Some \<lparr>protocol = ''https:'', hostname = ''example.com''\<rparr>"
    by code_simp
  have allowed: "protocol \<lparr>protocol = ''https:'', hostname = ''example.com''\<rparr>
      \<in> set allowedProtocols"
    by (simp add: allowedProtocols_def)
  have listed: "''data:'' \<in> set dangerousPatterns"
    by (simp add: dangerousPatterns_def)
  have found: "str_includes ''https://example.com/?next=data:1'' ''data:''"
    by code_simp
  show ?thesis
    using parsed validateUrl_blocklist_on_whole_string [OF parsed allowed listed found]
    by simp
qed

subsection \<open>The merger\<close>

text \<open>
  C7. Merging the empty override onto a record returns a record equal to the base.
\<close>

theorem mergeConfig_empty_override:
  "mergeConfig (JObj base) (JObj []) = Some (JObj base)"
  by (simp add: mergeConfig.simps)

lemma lookup_set_prop:
  "lookup (set_prop r k v) key = (if key = k then v else lookup r key)"
  by (induction r k v rule: set_prop.induct) (auto simp: lookup_def)

lemma get_defined:
  "base \<noteq> JNull \<Longrightarrow> base \<noteq> JUndefined \<Longrightarrow> \<exists>v. get base key = Some v"
  by (cases base) simp_all

lemma isObject_defined: "isObject v \<Longrightarrow> v \<noteq> JNull \<and> v \<noteq> JUndefined"
  by (cases v) simp_all

text \<open>On a base that is neither \<^verbatim>\<open>null\<close> nor \<^verbatim>\<open>undefined\<close> the merge does not throw.\<close>

lemma mergeConfig_total:
  "base \<noteq> JNull \<longrightarrow> base \<noteq> JUndefined \<longrightarrow> (\<exists>m. mergeConfig base override = Some (JObj m))"
  "base \<noteq> JNull \<longrightarrow> base \<noteq> JUndefined \<longrightarrow> (\<exists>r'. mergeConfig_loop base es r = Some r')"
proof (induction base override and base es r rule: mergeConfig_mergeConfig_loop.induct)
  case (1 base override)
  then show ?case by (auto simp: mergeConfig.simps)
next
  case (2 base result)
  then show ?case by simp
next
  case (3 base key overrideValue rest result)
  show ?case
  proof (intro impI)
    assume nn: "base \<noteq> JNull" and nu: "base \<noteq> JUndefined"
    then obtain baseValue where g: "get base key = Some baseValue"
      using get_defined by blast
    show "\<exists>r'. mergeConfig_loop base ((key, overrideValue) # rest) result = Some r'"
    proof (cases "overrideValue = JUndefined")
      case True
      then show ?thesis using 3(1) [OF g] nn nu g by simp
    next
      case False
      note ndef = this
      show ?thesis
      proof (cases "isObject overrideValue \<and> isObject baseValue \<and> \<not> isArray overrideValue")
        case True
        then obtain m where m: "mergeConfig baseValue overrideValue = Some (JObj m)"
          using 3(2) [OF g ndef True] isObject_defined by blast
        show ?thesis
          using 3(3) [OF g ndef True m] nn nu g ndef True m by simp
      next
        case False
        then show ?thesis
          using 3(4) [OF g ndef False] nn nu g ndef by auto
      qed
    qed
  qed
qed

text \<open>What the loop leaves under each key, given what \<open>result\<close> held when it started.\<close>

lemma mergeConfig_loop_lookup:
  assumes "distinct (map fst es)" and "mergeConfig_loop (JObj b) es r = Some r'"
  shows "lookup r' key =
     (case map_of es key of
        None \<Rightarrow> lookup r key
      | Some ov \<Rightarrow>
          if ov = JUndefined then lookup r key
          else if isObject ov \<and> isObject (lookup b key)
            then (case mergeConfig (lookup b key) ov of None \<Rightarrow> JUndefined | Some m \<Rightarrow> m)
          else ov)"
  using assms
proof (induction es arbitrary: r)
  case Nil
  then show ?case by simp
next
  case (Cons e es)
  obtain k ov where e: "e = (k, ov)" by (cases e)
  have d: "distinct (map fst es)" and k: "map_of es k = None"
    using Cons.prems(1) e by (auto simp: map_of_eq_None_iff)
  show ?case
  proof (cases "ov = JUndefined")
    case True
    then have "mergeConfig_loop (JObj b) es r = Some r'"
      using Cons.prems(2) e by simp
    from Cons.IH [OF d this] show ?thesis
      using e k True by (auto split: option.splits)
  next
    case False
    note ndef = this
    show ?thesis
    proof (cases "isObject ov \<and> isObject (lookup b k)")
      case True
      then have "\<not> isArray ov" by (cases ov) simp_all
      obtain m where m: "mergeConfig (lookup b k) ov = Some (JObj m)"
        using mergeConfig_total(1) [of "lookup b k" ov] True isObject_defined by blast
      have "mergeConfig_loop (JObj b) es (set_prop r k (JObj m)) = Some r'"
        using Cons.prems(2) e ndef True \<open>\<not> isArray ov\<close> m by simp
      from Cons.IH [OF d this] show ?thesis
        using e k ndef True m by (auto simp: lookup_set_prop split: option.splits)
    next
      case False
      then have "mergeConfig_loop (JObj b) es (set_prop r k ov) = Some r'"
        using Cons.prems(2) e ndef by auto
      from Cons.IH [OF d this] show ?thesis
        using e k ndef False by (auto simp: lookup_set_prop split: option.splits)
    qed
  qed
qed

text \<open>
  C8. For a record \<open>base\<close> and a record \<open>override\<close> the merge returns a record, and under
  every key: where the override has \<^verbatim>\<open>undefined\<close> (or nothing) the base value stands;
  where the override value and the base value are both records the result is their merge;
  in every other case (a scalar, the empty string or \<^verbatim>\<open>false\<close>, an array, a record
  against a value that is not a record) the result is the override value itself.
\<close>

theorem mergeConfig_per_key:
  assumes "distinct (map fst override)"
  shows "\<exists>result. mergeConfig (JObj base) (JObj override) = Some (JObj result) \<and>
     (\<forall>key.
        (lookup override key = JUndefined \<longrightarrow> lookup result key = lookup base key) \<and>
        (lookup override key \<noteq> JUndefined \<and> isObject (lookup override key)
            \<and> isObject (lookup base key) \<longrightarrow>
           mergeConfig (lookup base key) (lookup override key) = Some (lookup result key)) \<and>
        (lookup override key \<noteq> JUndefined
            \<and> \<not> (isObject (lookup override key) \<and> isObject (lookup base key)) \<longrightarrow>
           lookup result key = lookup override key))"
proof -
  obtain result where r: "mergeConfig_loop (JObj base) override base = Some result"
    using mergeConfig_total(2) [of "JObj base" override base] by auto
  have m: "mergeConfig (JObj base) (JObj override) = Some (JObj result)"
    using r by (simp add: mergeConfig.simps)
  have "(lookup override key = JUndefined \<longrightarrow> lookup result key = lookup base key) \<and>
        (lookup override key \<noteq> JUndefined \<and> isObject (lookup override key)
            \<and> isObject (lookup base key) \<longrightarrow>
           mergeConfig (lookup base key) (lookup override key) = Some (lookup result key)) \<and>
        (lookup override key \<noteq> JUndefined
            \<and> \<not> (isObject (lookup override key) \<and> isObject (lookup base key)) \<longrightarrow>
           lookup result key = lookup override key)" for key
  proof -
    note c = mergeConfig_loop_lookup [OF assms r, of key]
    show ?thesis
    proof (cases "map_of override key")
      case None
      then show ?thesis using c by (simp add: lookup_def)
    next
      case (Some ov)
      then have l: "lookup override key = ov" by (simp add: lookup_def)
      show ?thesis
      proof (cases "ov \<noteq> JUndefined \<and> isObject ov \<and> isObject (lookup base key)")
        case True
        then obtain mm where "mergeConfig (lookup base key) ov = Some (JObj mm)"
          using mergeConfig_total(1) [of "lookup base key" ov] isObject_defined by blast
        then show ?thesis using c Some l True by simp
      next
        case False
        then show ?thesis using c Some l by auto
      qed
    qed
  qed
  then show ?thesis using m by blast
qed

theorem mergeConfig_per_key_witness:
  "distinct (map fst
      [(''profile'', JObj [(''name'', JStr [])]), (''links'', JArr []),
       (''theme'', JUndefined), (''layout'', JBool False)])
   \<and> (\<exists>result.
        mergeConfig
          (JObj [(''profile'', JObj [(''name'', JStr ''A''), (''bio'', JStr ''b'')]),
                 (''links'', JArr [good_link]),
                 (''theme'', JObj [(''colorScheme'', JStr ''auto'')]),
                 (''layout'', JObj [])])
          (JObj [(''profile'', JObj [(''name'', JStr [])]), (''links'', JArr []),
                 (''theme'', JUndefined), (''layout'', JBool False)])
          = Some (JObj result)
        \<and> lookup result ''profile'' = JObj [(''name'', JStr []), (''bio'', JStr ''b'')]
        \<and> lookup result ''links'' = JArr []
        \<and> lookup result ''theme'' = JObj [(''colorScheme'', JStr ''auto'')]
        \<and> lookup result ''layout'' = JBool False)"
proof -
  let ?override = "[(''profile'', JObj [(''name'', JStr [])]), (''links'', JArr []),
       (''theme'', JUndefined), (''layout'', JBool False)]"
  let ?base = "[(''profile'', JObj [(''name'', JStr ''A''), (''bio'', JStr ''b'')]),
                 (''links'', JArr [good_link]),
                 (''theme'', JObj [(''colorScheme'', JStr ''auto'')]),
                 (''layout'', JObj [])]"
  have d: "distinct (map fst ?override)" by simp
  from mergeConfig_per_key [OF d, of ?base]
  obtain result where m: "mergeConfig (JObj ?base) (JObj ?override) = Some (JObj result)"
    and keys: "\<And>key.
        (lookup ?override key = JUndefined \<longrightarrow> lookup result key = lookup ?base key) \<and>
        (lookup ?override key \<noteq> JUndefined \<and> isObject (lookup ?override key)
            \<and> isObject (lookup ?base key) \<longrightarrow>
           mergeConfig (lookup ?base key) (lookup ?override key) = Some (lookup result key)) \<and>
        (lookup ?override key \<noteq> JUndefined
            \<and> \<not> (isObject (lookup ?override key) \<and> isObject (lookup ?base key)) \<longrightarrow>
           lookup result key = lookup ?override key)"
    by blast
  have inner: "mergeConfig (JObj [(''name'', JStr ''A''), (''bio'', JStr ''b'')])
      (JObj [(''name'', JStr [])]) = Some (JObj [(''name'', JStr []), (''bio'', JStr ''b'')])"
    by code_simp
  have "lookup result ''profile'' = JObj [(''name'', JStr []), (''bio'', JStr ''b'')]"
    using keys [of "''profile''"] inner by (simp add: lookup_def)
  moreover have "lookup result ''links'' = JArr []"
    using keys [of "''links''"] by (simp add: lookup_def)
  moreover have "lookup result ''theme'' = JObj [(''colorScheme'', JStr ''auto'')]"
    using keys [of "''theme''"] by (simp add: lookup_def)
  moreover have "lookup result ''layout'' = JBool False"
    using keys [of "''layout''"] by (simp add: lookup_def)
  ultimately show ?thesis using d m by blast
qed

subsection \<open>The merger and the store\<close>

















end
